theory Spec2Isabelle
  imports
    Main
    "HOL-Library.AList"
    "HOL-Library.Char_ord"
    "HOL-Library.List_Lexorder"
    "HOL-Library.Multiset"
begin

text \<open>
  The plugin \<^verbatim>\<open>BroccoliDependencyFunnel\<close> of \<^verbatim>\<open>src/index.js\<close>: from an input directory and an
  entry module it copies forward either the modules that the entry reaches through its
  imports (include) or everything else (exclude), and on later builds it looks at two
  cached snapshots to decide between doing nothing, patching the output and computing
  everything again. The methods are functions from the instance and the filesystem to an
  optional error, the instance and the filesystem after the call.
\<close>

unbundle bit_operations_syntax

section \<open>Strings and paths\<close>

text \<open>
  Paths are JavaScript strings, modelled as \<^typ>\<open>string\<close>. The order on strings is the
  lexicographic order on character codes, which is what \<^verbatim>\<open>Array.prototype.sort\<close> without a
  comparator uses (for ASCII paths).
\<close>

type_synonym path = string

text \<open>\<^verbatim>\<open>s.split(c)\<close> for a one-character separator: never returns the empty array.\<close>

fun splitOn :: "char \<Rightarrow> string \<Rightarrow> string list" where
  "splitOn c [] = [[]]"
| "splitOn c (x # xs) =
     (if x = c then [] # splitOn c xs
      else (case splitOn c xs of [] \<Rightarrow> [[x]] | y # ys \<Rightarrow> (x # y) # ys))"

text \<open>\<^verbatim>\<open>parts.join(sep)\<close>.\<close>

fun joinWith :: "string \<Rightarrow> string list \<Rightarrow> string" where
  "joinWith sep [] = []"
| "joinWith sep [p] = p"
| "joinWith sep (p # q # ps) = p @ sep @ joinWith sep (q # ps)"

text \<open>
  \<^verbatim>\<open>s.replace(pattern, '')\<close> with a string pattern: the first occurrence of the pattern
  is removed, wherever it is in \<open>s\<close>.
\<close>

fun replaceFirst :: "string \<Rightarrow> string \<Rightarrow> string" where
  "replaceFirst pat [] = []"
| "replaceFirst pat (c # cs) =
     (if take (length pat) (c # cs) = pat then drop (length pat) (c # cs)
      else c # replaceFirst pat cs)"

text \<open>\<^verbatim>\<open>s.replace(/^\//, '')\<close>: one leading slash is removed.\<close>

fun stripLeadingSlash :: "string \<Rightarrow> string" where
  "stripLeadingSlash [] = []"
| "stripLeadingSlash (c # cs) = (if c = CHR ''/'' then cs else c # cs)"

text \<open>
  \<^verbatim>\<open>path.join\<close> of the package \<^verbatim>\<open>path-posix\<close>: the non-empty segments are joined with a
  slash and the result is normalised. \<open>normalizeArray\<close> keeps its result reversed in the
  accumulator.
\<close>

fun normalizeArray :: "bool \<Rightarrow> string list \<Rightarrow> string list \<Rightarrow> string list" where
  "normalizeArray allowAboveRoot res [] = rev res"
| "normalizeArray allowAboveRoot res (p # ps) =
     (if p = [] \<or> p = ''.'' then normalizeArray allowAboveRoot res ps
      else if p = ''..'' then
        (case res of
           [] \<Rightarrow> normalizeArray allowAboveRoot (if allowAboveRoot then [''..''] else []) ps
         | r # rs \<Rightarrow>
             if r \<noteq> ''..'' then normalizeArray allowAboveRoot rs ps
             else normalizeArray allowAboveRoot
                    (if allowAboveRoot then ''..'' # r # rs else r # rs) ps)
      else normalizeArray allowAboveRoot (p # res) ps)"

definition isAbsolute :: "path \<Rightarrow> bool" where
  "isAbsolute p = (case p of [] \<Rightarrow> False | c # _ \<Rightarrow> c = CHR ''/'')"

definition normalize :: "path \<Rightarrow> path" where
  "normalize p =
     (let abs = isAbsolute p;
          trailingSlash = (p \<noteq> [] \<and> last p = CHR ''/'');
          q = joinWith ''/'' (normalizeArray (\<not> abs) [] (splitOn CHR ''/'' p));
          q1 = (if q = [] \<and> \<not> abs then ''.'' else q);
          q2 = (if q1 \<noteq> [] \<and> trailingSlash then q1 @ ''/'' else q1)
      in (if abs then ''/'' else []) @ q2)"

definition path_join :: "path \<Rightarrow> path \<Rightarrow> path" where
  "path_join a b = normalize (joinWith ''/'' (filter (\<lambda>s. s \<noteq> []) [a, b]))"

section \<open>Construction\<close>

datatype error =
    ConfigError      \<comment> \<open>Must specify exactly one of `include` or `exclude`.\<close>
  | TypeError        \<comment> \<open>a method call or property read on \<^verbatim>\<open>undefined\<close>\<close>
  | ENOENT path      \<comment> \<open>a filesystem operation on a path that does not exist\<close>
  | LoadError path   \<comment> \<open>the bundler could not load a resolved module\<close>
  | ParentOfRoot     \<comment> \<open>Cannot access parent module of root\<close>
  | NotSortedUnique path path
      \<comment> \<open>expected entries to be sorted: Ensure your input is sorted and has no duplicate paths\<close>

text \<open>
  A JavaScript value, as an option of the constructor can be any. The constructor looks at
  a value in two ways only: line 27 takes its \<^verbatim>\<open>ToInt32\<close> (the operands of \<^verbatim>\<open>^\<close>) and line 33
  its \<^verbatim>\<open>ToBoolean\<close> (\<^verbatim>\<open>!!\<close>). \<open>Number n\<close> is the number with the integer value \<open>n\<close>. \<open>Opaque i b\<close>
  is any other value (a string, an object, a number that is no integer), given by its
  \<^verbatim>\<open>ToInt32\<close> and its \<^verbatim>\<open>ToBoolean\<close>.
\<close>

datatype jsvalue = Undefined | Null | Boolean bool | Number int | Opaque int bool

text \<open>A 32-bit signed integer from an integer: the value modulo \<open>2^32\<close>, in \<open>[-2^31, 2^31)\<close>.\<close>

definition int32 :: "int \<Rightarrow> int" where
  "int32 n = (n + 2147483648) mod 4294967296 - 2147483648"

text \<open>\<^verbatim>\<open>ToInt32\<close>, as the operator \<^verbatim>\<open>^\<close> applies it to each operand.\<close>

fun toInt32 :: "jsvalue \<Rightarrow> int" where
  "toInt32 Undefined = 0"
| "toInt32 Null = 0"
| "toInt32 (Boolean b) = (if b then 1 else 0)"
| "toInt32 (Number n) = int32 n"
| "toInt32 (Opaque i b) = int32 i"

text \<open>\<^verbatim>\<open>ToBoolean\<close>, as \<^verbatim>\<open>!!v\<close> applies it.\<close>

fun truthy :: "jsvalue \<Rightarrow> bool" where
  "truthy Undefined = False"
| "truthy Null = False"
| "truthy (Boolean b) = b"
| "truthy (Number n) = (n \<noteq> 0)"
| "truthy (Opaque i b) = b"

text \<open>
  The string \<^verbatim>\<open>'yes'\<close>: it is no numeric literal, so its number is \<^verbatim>\<open>NaN\<close> and its \<^verbatim>\<open>ToInt32\<close>
  is 0; it is not empty, so it is truthy.
\<close>

definition yes :: jsvalue where
  "yes = Opaque 0 True"

text \<open>
  The options object. \<open>include\<close> and \<open>exclude\<close> can hold any value; \<open>external\<close> is an array
  or absent. An option that is not given is \<^verbatim>\<open>undefined\<close>.
\<close>

record options =
  opt_include :: jsvalue
  opt_exclude :: jsvalue
  opt_entry :: path
  opt_external :: "string list option"

definition isBooleanOrAbsent :: "jsvalue \<Rightarrow> bool" where
  "isBooleanOrAbsent v = (case v of Undefined \<Rightarrow> True | Boolean b \<Rightarrow> True | _ \<Rightarrow> False)"

text \<open>
  What a stat call returns, as far as a snapshot looks at it, and the entries and trees of
  the package \<^verbatim>\<open>fs-tree-diff\<close>: an entry is a relative path with its stat.
\<close>

record stat =
  isDirectory :: bool
  mode :: nat
  size :: nat
  mtime :: nat

type_synonym tree_entry = "path \<times> stat"
type_synonym fstree = "tree_entry list"

text \<open>
  The plugin instance: the mode (\<^verbatim>\<open>this.include\<close>), the entry, the external specifiers and the
  four cached fields, which start as \<^verbatim>\<open>undefined\<close>. \<open>inputPath\<close> is \<^verbatim>\<open>this.inputPaths[0]\<close> and
  \<open>outputPath\<close> is \<^verbatim>\<open>this.outputPath\<close>; the host framework provides both for every build,
  so the model passes them to each method in a record of their own.
\<close>

record funnel =
  includeFlag :: bool
  entry :: path
  external :: "string list option"
  depGraph :: "path list option"
  depGraphTree :: "fstree option"
  nonDepGraph :: "path list option"
  nonDepGraphTree :: "fstree option"

record host =
  inputPath :: path
  outputPath :: path

text \<open>
  The constructor, after the call of the base class: the check of the two mode options
  with the bitwise \<^verbatim>\<open>^\<close>, and the initial fields.
\<close>

definition constructor :: "options \<Rightarrow> error + funnel" where
  "constructor opts =
     (if (toInt32 (opt_include opts) XOR toInt32 (opt_exclude opts)) = 0 then Inl ConfigError
      else Inr \<lparr> includeFlag = truthy (opt_include opts),
                 entry = opt_entry opts,
                 external = opt_external opts,
                 depGraph = None,
                 depGraphTree = None,
                 nonDepGraph = None,
                 nonDepGraphTree = None \<rparr>)"

section \<open>The filesystem\<close>

text \<open>
  The filesystem is an association list from normalised path to node. A file carries, as
  its content, the import specifiers the bundler finds in it, in order. A directory is a
  node of its own, and what it holds are the nodes at the paths under it; writing a path
  does not create its parent directories.
\<close>

datatype node = FileNode stat "string list" | DirNode stat

type_synonym filesystem = "(path \<times> node) list"

fun statOf :: "node \<Rightarrow> stat" where
  "statOf (FileNode s _) = s"
| "statOf (DirNode s) = s"

text \<open>\<^verbatim>\<open>existsSync\<close> of the package \<^verbatim>\<open>exists-sync\<close>.\<close>

definition existsSync :: "filesystem \<Rightarrow> path \<Rightarrow> bool" where
  "existsSync fs p = (map_of fs p \<noteq> None)"

text \<open>
  Modelled from the spec: \<^verbatim>\<open>utils/exists-stat\<close> is not among the sources. It stats a path
  and returns nothing when the target does not exist (4.1: such paths are silently
  omitted from a snapshot).
\<close>

definition existsStat :: "filesystem \<Rightarrow> path \<Rightarrow> stat option" where
  "existsStat fs p = map_option statOf (map_of fs p)"

text \<open>The paths under a directory, relative to it.\<close>

definition isUnder :: "path \<Rightarrow> path \<Rightarrow> bool" where
  "isUnder dir p = (length dir < length p \<and> take (Suc (length dir)) p = dir @ ''/'')"

definition within :: "path \<Rightarrow> path \<Rightarrow> bool" where
  "within dir p = (p = dir \<or> isUnder dir p)"

definition relativeTo :: "path \<Rightarrow> path \<Rightarrow> path" where
  "relativeTo dir p = drop (Suc (length dir)) p"

definition listing :: "filesystem \<Rightarrow> path \<Rightarrow> path list" where
  "listing fs dir = map (relativeTo dir) (filter (isUnder dir) (map fst fs))"

text \<open>
  \<^verbatim>\<open>fs.readdirSync\<close>: the names directly in a directory; it throws when the directory does
  not exist.
\<close>

definition readdirSync :: "filesystem \<Rightarrow> path \<Rightarrow> error + string list" where
  "readdirSync fs dir =
     (case map_of fs dir of
        Some (DirNode _) \<Rightarrow> Inr (filter (\<lambda>n. CHR ''/'' \<notin> set n) (listing fs dir))
      | _ \<Rightarrow> Inl (ENOENT dir))"

text \<open>
  Modelled from the spec: \<^verbatim>\<open>utils/filter-directory\<close> is not among the sources. 4.2: it
  enumerates every file and directory under the root for which the predicate on the
  relative path holds. The second argument is the prefix of the relative paths, always
  the empty string here.
\<close>

definition filterDirectory :: "filesystem \<Rightarrow> path \<Rightarrow> path \<Rightarrow> (path \<Rightarrow> bool) \<Rightarrow> path list" where
  "filterDirectory fs directory prefix callback =
     filter callback (map (\<lambda>r. prefix @ r) (listing fs directory))"

text \<open>\<^verbatim>\<open>rimraf.sync\<close>: the directory and everything under it are removed.\<close>

definition rimraf :: "path \<Rightarrow> filesystem \<Rightarrow> filesystem" where
  "rimraf dir fs = filter (\<lambda>(p, n). p \<noteq> dir \<and> \<not> isUnder dir p) fs"

text \<open>
  Modelled from the spec: \<^verbatim>\<open>utils/copy-file\<close> is not among the sources. It is the low-level
  copy of one path to another. 4.4 has the whole root copied forward verbatim by the copy
  of the names directly in it, so the copy of a directory brings everything under it. A
  source that does not exist is an I/O error, which aborts the build (section 7).
\<close>

definition copyFile :: "path \<Rightarrow> path \<Rightarrow> filesystem \<Rightarrow> error + filesystem" where
  "copyFile src dst fs =
     (case map_of fs src of
        None \<Rightarrow> Inl (ENOENT src)
      | Some _ \<Rightarrow>
          Inr (foldr (\<lambda>k acc. case map_of fs k of
                                 None \<Rightarrow> acc
                               | Some n \<Rightarrow> AList.update (dst @ drop (length src) k) n acc)
                 (filter (within src) (map fst fs)) fs))"

section \<open>Snapshots and patches\<close>

text \<open>\<^verbatim>\<open>Entry.fromStat\<close> of the package \<^verbatim>\<open>fs-tree-diff\<close>.\<close>

definition fromStat :: "path \<Rightarrow> stat \<Rightarrow> tree_entry" where
  "fromStat relativePath s = (relativePath, s)"

text \<open>
  \<^verbatim>\<open>FSTree.fromEntries\<close> of the package \<^verbatim>\<open>fs-tree-diff\<close>, called without options: it checks
  that every path is strictly less than the next one and throws at the first pair that
  is not, so on entries that are not sorted or hold a path twice.
\<close>

fun validateSortedUnique :: "tree_entry list \<Rightarrow> error option" where
  "validateSortedUnique [] = None"
| "validateSortedUnique [e] = None"
| "validateSortedUnique (previous # current # entries) =
     (if fst previous < fst current then validateSortedUnique (current # entries)
      else Some (NotSortedUnique (fst previous) (fst current)))"

definition fromEntries :: "tree_entry list \<Rightarrow> error + fstree" where
  "fromEntries entries =
     (case validateSortedUnique entries of None \<Rightarrow> Inr entries | Some e \<Rightarrow> Inl e)"

datatype patch_op = Unlink path | Rmdir path | Mkdir path | Create path | Change path

text \<open>
  Modelled from the spec: \<^verbatim>\<open>calculatePatch\<close> belongs to the package \<^verbatim>\<open>fs-tree-diff\<close>. 4.1:
  two entries are equal when kind, size, permission bits and modification time all match;
  anything else is an update for a path on both sides, a removal or a creation for a path
  on one side. Removals come first, the deepest path first.
\<close>

definition calculatePatch :: "fstree \<Rightarrow> fstree \<Rightarrow> patch_op list" where
  "calculatePatch old new =
     rev (concat (map (\<lambda>(p, s). if map_of new p = None
                                then [if isDirectory s then Rmdir p else Unlink p]
                                else []) old))
     @ concat (map (\<lambda>(p, s). case map_of old p of
                                None \<Rightarrow> [if isDirectory s then Mkdir p else Create p]
                              | Some s' \<Rightarrow> if s' = s then [] else [Change p]) new)"

text \<open>
  Modelled from the spec: the removal of one path, as \<^verbatim>\<open>FSTree.applyPatch\<close> of the package
  \<^verbatim>\<open>fs-tree-diff\<close> does it for the operations \<open>unlink\<close> and \<open>rmdir\<close>. Removing a path that is
  not there is an I/O error (section 7).
\<close>

definition removePath :: "path \<Rightarrow> filesystem \<Rightarrow> error + filesystem" where
  "removePath p fs = (if existsSync fs p then Inr (AList.delete p fs) else Inl (ENOENT p))"

text \<open>
  Modelled from the spec: the creation or update of one path, as \<^verbatim>\<open>FSTree.applyPatch\<close> does
  it for the operations \<open>mkdir\<close>, \<open>create\<close> and \<open>change\<close>: the node at the path in the input
  directory is put at the path in the output directory, and nothing under it.
\<close>

definition copyNode :: "path \<Rightarrow> path \<Rightarrow> filesystem \<Rightarrow> error + filesystem" where
  "copyNode src dst fs =
     (case map_of fs src of
        None \<Rightarrow> Inl (ENOENT src)
      | Some n \<Rightarrow> Inr (AList.update dst n fs))"

text \<open>
  Modelled from the spec: one operation of \<^verbatim>\<open>FSTree.applyPatch\<close>, on the output directory,
  taking new content from the input directory (4.4: create, update and remove mirror the
  changes of the complement).
\<close>

fun applyOp :: "path \<Rightarrow> path \<Rightarrow> patch_op \<Rightarrow> filesystem \<Rightarrow> error + filesystem" where
  "applyOp inp out (Unlink p) fs = removePath (path_join out p) fs"
| "applyOp inp out (Rmdir p) fs = removePath (path_join out p) fs"
| "applyOp inp out (Mkdir p) fs = copyNode (path_join inp p) (path_join out p) fs"
| "applyOp inp out (Create p) fs = copyNode (path_join inp p) (path_join out p) fs"
| "applyOp inp out (Change p) fs = copyNode (path_join inp p) (path_join out p) fs"

text \<open>
  Modelled from the spec: \<^verbatim>\<open>FSTree.applyPatch\<close> belongs to the package \<^verbatim>\<open>fs-tree-diff\<close>. It
  replays the operations in order and stops at the first that fails, with the operations
  before it applied.
\<close>

fun applyPatch :: "path \<Rightarrow> path \<Rightarrow> patch_op list \<Rightarrow> filesystem \<Rightarrow> error option \<times> filesystem" where
  "applyPatch inp out [] fs = (None, fs)"
| "applyPatch inp out (op # ops) fs =
     (case applyOp inp out op fs of
        Inl e \<Rightarrow> (Some e, fs)
      | Inr fs' \<Rightarrow> applyPatch inp out ops fs')"

section \<open>Resolution\<close>

text \<open>
  \<^verbatim>\<open>moduleResolve\<close> of the package \<^verbatim>\<open>amd-name-resolver\<close>: a name that does not start with a
  dot is returned as it is; a relative name is resolved, segment by segment, against the
  directory of the importer. The directory is kept reversed.
\<close>

fun resolveParts :: "string list \<Rightarrow> string list \<Rightarrow> error + string list" where
  "resolveParts parentBase [] = Inr (rev parentBase)"
| "resolveParts parentBase (part # parts) =
     (if part = ''..'' then
        (case parentBase of [] \<Rightarrow> Inl ParentOfRoot | _ # base \<Rightarrow> resolveParts base parts)
      else if part = ''.'' then resolveParts parentBase parts
      else resolveParts (part # parentBase) parts)"

definition amdNameResolver :: "string \<Rightarrow> string \<Rightarrow> error + string" where
  "amdNameResolver child name =
     (if take 1 child \<noteq> ''.'' then Inr child
      else (case resolveParts (rev (butlast (splitOn CHR ''/'' name))) (splitOn CHR ''/'' child) of
              Inl e \<Rightarrow> Inl e
            | Inr parts \<Rightarrow> Inr (joinWith ''/'' parts)))"

text \<open>
  The callback \<open>resolveId\<close> of \<open>_getRollupOptions\<close>. It pushes to the array \<open>modules\<close> that
  the caller handed in: the model takes the array and returns it with the result. The
  importer is \<open>None\<close> for \<^verbatim>\<open>undefined\<close>; the test \<^verbatim>\<open>!importer\<close> also holds for the empty
  string.
\<close>

definition resolveId ::
  "host \<Rightarrow> filesystem \<Rightarrow> string \<Rightarrow> string option \<Rightarrow> path list \<Rightarrow> error + (path option \<times> path list)" where
  "resolveId io fs importee importer modules =
     (case (case importer of None \<Rightarrow> None | Some i \<Rightarrow> if i = [] then None else Some i) of
        None \<Rightarrow>
          (let moduleName = replaceFirst (inputPath io) importee
           in Inr (Some (path_join (inputPath io) importee), modules @ [moduleName]))
      | Some i \<Rightarrow>
          (case amdNameResolver importee i of
             Inl e \<Rightarrow> Inl e
           | Inr resolved \<Rightarrow>
               (let moduleName = stripLeadingSlash (replaceFirst (inputPath io) resolved);
                    modulePath = path_join (inputPath io) (moduleName @ ''.js'')
                in if existsSync fs modulePath
                   then Inr (Some modulePath, modules @ [moduleName @ ''.js''])
                   else Inr (None, modules))))"

record rollupOptions =
  ro_entry :: path
  ro_external :: "string list"
  ro_dest :: string
  ro_resolveId :: "string \<Rightarrow> string option \<Rightarrow> path list \<Rightarrow> error + (path option \<times> path list)"

definition getRollupOptions :: "host \<Rightarrow> funnel \<Rightarrow> filesystem \<Rightarrow> rollupOptions" where
  "getRollupOptions io this fs =
     \<lparr> ro_entry = entry this,
       ro_external = (case external this of None \<Rightarrow> [] | Some ext \<Rightarrow> ext),
       ro_dest = ''foo.js'',
       ro_resolveId = resolveId io fs \<rparr>"

text \<open>
  Modelled from the spec: how the bundler reads a module. A file's content is the list of
  its import specifiers; a path that is no file cannot be loaded.
\<close>

definition load :: "filesystem \<Rightarrow> path \<Rightarrow> string list option" where
  "load fs p = (case map_of fs p of Some (FileNode _ imps) \<Rightarrow> Some imps | _ \<Rightarrow> None)"

text \<open>The number of loadable modules not yet visited: what the walk below uses up.\<close>

definition unvisited :: "filesystem \<Rightarrow> path list \<Rightarrow> nat" where
  "unvisited fs visited = card ({q. load fs q \<noteq> None} - set visited)"

text \<open>
  Modelled from the spec: the bundler \<^verbatim>\<open>rollup\<close> is a package, not among the sources. 4.3:
  every import of a visited module is resolved through the callback, except the
  specifiers listed as external, which are skipped at once. A resolved module that was
  not visited before is loaded and walked, depth first; an unresolved specifier is
  skipped without an error. \<open>pending\<close> holds the imports still to resolve, each with its
  importer. The walk ends: every module is loaded once, and the filesystem is finite.
\<close>

function walk ::
  "rollupOptions \<Rightarrow> filesystem \<Rightarrow> (string \<times> path) list \<Rightarrow> path list \<Rightarrow> path list \<Rightarrow> error + path list" where
  "walk opts fs [] visited modules = Inr modules"
| "walk opts fs ((importee, importer) # pending) visited modules =
     (if importee \<in> set (ro_external opts) then walk opts fs pending visited modules
      else (case ro_resolveId opts importee (Some importer) modules of
              Inl e \<Rightarrow> Inl e
            | Inr (None, modules') \<Rightarrow> walk opts fs pending visited modules'
            | Inr (Some p, modules') \<Rightarrow>
                if p \<in> set visited then walk opts fs pending visited modules'
                else (case load fs p of
                        None \<Rightarrow> Inl (LoadError p)
                      | Some imps \<Rightarrow>
                          walk opts fs (map (\<lambda>s. (s, p)) imps @ pending) (p # visited) modules')))"
  by pat_completeness auto

termination walk
proof -
  have less: "unvisited fs (p # visited) < unvisited fs visited"
    if "load fs p = Some imps" and "p \<notin> set visited" for fs p imps visited
    unfolding unvisited_def
  proof (rule psubset_card_mono)
    have "{q. load fs q \<noteq> None} \<subseteq> fst ` set fs"
      by (auto simp: load_def split: option.splits dest: map_of_SomeD intro: rev_image_eqI)
    then have "finite {q. load fs q \<noteq> None}"
      by (rule finite_subset) simp
    then show "finite ({q. load fs q \<noteq> None} - set visited)"
      by blast
    show "{q. load fs q \<noteq> None} - set (p # visited) \<subset> {q. load fs q \<noteq> None} - set visited"
      using that by auto
  qed
  show ?thesis
    by (relation "measures [\<lambda>(opts, fs, pending, visited, modules). unvisited fs visited,
                             \<lambda>(opts, fs, pending, visited, modules). length pending]")
       (simp_all add: less)
qed

text \<open>
  Modelled from the spec: the entry of \<^verbatim>\<open>rollup\<close>. 4.3: the walk starts at the entry, which
  the callback resolves with no importer and records.
\<close>

definition rollup :: "rollupOptions \<Rightarrow> filesystem \<Rightarrow> path list \<Rightarrow> error + path list" where
  "rollup opts fs modules =
     (case ro_resolveId opts (ro_entry opts) None modules of
        Inl e \<Rightarrow> Inl e
      | Inr (None, modules') \<Rightarrow> Inl (LoadError (ro_entry opts))
      | Inr (Some p, modules') \<Rightarrow>
          (case load fs p of
             None \<Rightarrow> Inl (LoadError p)
           | Some imps \<Rightarrow> walk opts fs (map (\<lambda>s. (s, p)) imps) [p] modules'))"

section \<open>The plugin's methods\<close>

text \<open>
  Every method returns the error it threw, if any, with the instance and the filesystem
  as they are at that moment: an exception undoes nothing.
\<close>

fun copy :: "host \<Rightarrow> path list \<Rightarrow> filesystem \<Rightarrow> error option \<times> filesystem" where
  "copy io [] fs = (None, fs)"
| "copy io (module # inodes) fs =
     (case copyFile (path_join (inputPath io) module) (path_join (outputPath io) module) fs of
        Inl e \<Rightarrow> (Some e, fs)
      | Inr fs' \<Rightarrow> copy io inodes fs')"

definition getFSTree :: "host \<Rightarrow> filesystem \<Rightarrow> path list \<Rightarrow> error + fstree" where
  "getFSTree io fs paths =
     fromEntries (List.map_filter
       (\<lambda>entryPath. case existsStat fs (path_join (inputPath io) entryPath) of
                      None \<Rightarrow> None
                    | Some s \<Rightarrow> Some (fromStat entryPath s)) paths)"

definition buildNonDepGraphChanges :: "host \<Rightarrow> funnel \<Rightarrow> filesystem \<Rightarrow> error option \<times> funnel \<times> filesystem" where
  "buildNonDepGraphChanges io this fs =
     (case nonDepGraph this of
        None \<Rightarrow> (Some TypeError, this, fs)
      | Some paths \<Rightarrow>
          (case getFSTree io fs paths of
             Inl e \<Rightarrow> (Some e, this, fs)
           | Inr incomingNonDepGraphTree \<Rightarrow>
               (case nonDepGraphTree this of
                  None \<Rightarrow> (Some TypeError, this, fs)
                | Some tree \<Rightarrow>
                    (let nonDepGraphPatch = calculatePatch tree incomingNonDepGraphTree
                     in if nonDepGraphPatch = [] then (None, this, fs)
                        else if \<not> includeFlag this then
                          (case applyPatch (inputPath io) (outputPath io) nonDepGraphPatch fs of
                             (r, fs') \<Rightarrow> (r, this, fs'))
                        else (None, this, fs)))))"

definition copyDepGraph :: "host \<Rightarrow> funnel \<Rightarrow> filesystem \<Rightarrow> path list \<Rightarrow> error option \<times> funnel \<times> filesystem" where
  "copyDepGraph io this fs modules =
     (let sorted = sort modules;
          complement = sort (filterDirectory fs (inputPath io) [] (\<lambda>module. module \<notin> set sorted));
          this1 = this\<lparr> depGraph := Some sorted, nonDepGraph := Some complement \<rparr>;
          fs1 = rimraf (outputPath io) fs;
          toCopy = (if includeFlag this1 then sorted else complement)
      in case copy io toCopy fs1 of
           (Some e, fs2) \<Rightarrow> (Some e, this1, fs2)
         | (None, fs2) \<Rightarrow>
             (case getFSTree io fs2 sorted of
                Inl e \<Rightarrow> (Some e, this1, fs2)
              | Inr tree \<Rightarrow>
                  (let this2 = this1\<lparr> depGraphTree := Some tree \<rparr>
                   in case getFSTree io fs2 complement of
                        Inl e \<Rightarrow> (Some e, this2, fs2)
                      | Inr tree' \<Rightarrow> (None, this2\<lparr> nonDepGraphTree := Some tree' \<rparr>, fs2))))"

text \<open>
  \<open>build\<close>, in two parts: \<open>buildFromEntry\<close> is the second half of the method, from the
  test of the entry on.
\<close>

definition buildFromEntry :: "host \<Rightarrow> funnel \<Rightarrow> filesystem \<Rightarrow> error option \<times> funnel \<times> filesystem" where
  "buildFromEntry io this fs =
     (if \<not> existsSync fs (path_join (inputPath io) (entry this)) then
        (if \<not> includeFlag this then
           (case readdirSync fs (inputPath io) of
              Inl e \<Rightarrow> (Some e, this, fs)
            | Inr modules \<Rightarrow> (case copy io modules fs of (r, fs') \<Rightarrow> (r, this, fs')))
         else (None, this, fs))
      else (case rollup (getRollupOptions io this fs) fs [] of
              Inl e \<Rightarrow> (Some e, this, fs)
            | Inr modules \<Rightarrow> copyDepGraph io this fs modules))"

definition build :: "host \<Rightarrow> funnel \<Rightarrow> filesystem \<Rightarrow> error option \<times> funnel \<times> filesystem" where
  "build io this fs =
     (case depGraph this of
        None \<Rightarrow> buildFromEntry io this fs
      | Some paths \<Rightarrow>
          (case getFSTree io fs paths of
             Inl e \<Rightarrow> (Some e, this, fs)
           | Inr incomingDepGraphTree \<Rightarrow>
               (case depGraphTree this of
                  None \<Rightarrow> (Some TypeError, this, fs)
                | Some tree \<Rightarrow>
                    if calculatePatch tree incomingDepGraphTree = []
                    then buildNonDepGraphChanges io this fs
                    else buildFromEntry io this fs)))"

section \<open>Derived notions and example trees\<close>

text \<open>
  The four cached fields are all \<^verbatim>\<open>undefined\<close> or all defined.
\<close>

definition cacheAllOrNone :: "funnel \<Rightarrow> bool" where
  "cacheAllOrNone this =
     ((depGraph this = None) = (depGraphTree this = None) \<and>
      (depGraph this = None) = (nonDepGraph this = None) \<and>
      (depGraph this = None) = (nonDepGraphTree this = None))"

text \<open>
  The two sets of a recomputation, as \<open>_copyDepGraph\<close> computes them from the recorded
  modules: the complement, and the set that the mode selects for the copy.
\<close>

definition complementOf :: "host \<Rightarrow> filesystem \<Rightarrow> path list \<Rightarrow> path list" where
  "complementOf io fs modules =
     sort (filterDirectory fs (inputPath io) [] (\<lambda>module. module \<notin> set modules))"

definition selectedSet :: "host \<Rightarrow> funnel \<Rightarrow> filesystem \<Rightarrow> path list \<Rightarrow> path list" where
  "selectedSet io this fs modules =
     (if includeFlag this then sort modules else complementOf io fs modules)"

text \<open>
  The path in the output directory that mirrors a path of the input directory.
\<close>

definition mirror :: "host \<Rightarrow> path \<Rightarrow> path" where
  "mirror io k = outputPath io @ drop (length (inputPath io)) k"




text \<open>
  The tree in which no module imports a specifier of the list \<open>ext\<close>: the same paths and
  metadata, with those imports erased from every file.
\<close>

fun withoutImports :: "string list \<Rightarrow> node \<Rightarrow> node" where
  "withoutImports ext (FileNode s imps) = FileNode s (filter (\<lambda>i. i \<notin> set ext) imps)"
| "withoutImports ext (DirNode s) = DirNode s"

definition withoutExternal :: "string list \<Rightarrow> filesystem \<Rightarrow> filesystem" where
  "withoutExternal ext fs = map (\<lambda>(p, n). (p, withoutImports ext n)) fs"

text \<open>
  An input root \<open>src\<close> with the entry \<open>a.js\<close>, which imports \<open>b\<close>; \<open>b.js\<close> imports \<open>./c\<close>;
  \<open>d.js\<close> is outside the graph. The output directory \<open>out\<close> is empty.
\<close>

definition fileStat :: "nat \<Rightarrow> stat" where
  "fileStat t = \<lparr> isDirectory = False, mode = 420, size = 10, mtime = t \<rparr>"

definition dirStat :: stat where
  "dirStat = \<lparr> isDirectory = True, mode = 493, size = 0, mtime = 1 \<rparr>"

definition exampleHost :: host where
  "exampleHost = \<lparr> inputPath = ''src'', outputPath = ''out'' \<rparr>"

definition exampleTree :: filesystem where
  "exampleTree =
     [(''src'', DirNode dirStat),
      (''src/a.js'', FileNode (fileStat 1) [''b'']),
      (''src/b.js'', FileNode (fileStat 1) [''./c'']),
      (''src/c.js'', FileNode (fileStat 1) []),
      (''src/d.js'', FileNode (fileStat 1) []),
      (''out'', DirNode dirStat)]"

definition exampleFunnel :: "bool \<Rightarrow> funnel" where
  "exampleFunnel inc =
     \<lparr> includeFlag = inc, entry = ''a.js'', external = None,
       depGraph = None, depGraphTree = None, nonDepGraph = None, nonDepGraphTree = None \<rparr>"

text \<open>The first build on the example tree, in the given mode: instance and filesystem after it.\<close>

definition builtFunnel :: "bool \<Rightarrow> funnel" where
  "builtFunnel inc = fst (snd (build exampleHost (exampleFunnel inc) exampleTree))"

definition builtTree :: "bool \<Rightarrow> filesystem" where
  "builtTree inc = snd (snd (build exampleHost (exampleFunnel inc) exampleTree))"

text \<open>Later states of the example tree, after the first build.\<close>

definition outsideTouchedTree :: filesystem where
  \<comment> \<open>include mode; \<open>d.js\<close>, outside the graph, is rewritten\<close>
  "outsideTouchedTree = AList.update ''src/d.js'' (FileNode (fileStat 2) [''a'']) (builtTree True)"



definition fileAddedTree :: filesystem where
  \<comment> \<open>exclude mode; a new file \<open>e.js\<close> appears in the input root\<close>
  "fileAddedTree = AList.update ''src/e.js'' (FileNode (fileStat 2) []) (builtTree False)"

definition fileRemovedTree :: filesystem where
  \<comment> \<open>exclude mode; \<open>d.js\<close>, outside the graph, is deleted from the input root\<close>
  "fileRemovedTree = AList.delete ''src/d.js'' (builtTree False)"

definition noEntryTree :: filesystem where
  \<comment> \<open>the example tree without its entry, before any build\<close>
  "noEntryTree = AList.delete ''src/a.js'' exampleTree"

definition afterRemovalTree :: filesystem where
  \<comment> \<open>exclude mode; the filesystem after the build that follows the deletion of \<open>d.js\<close>\<close>
  "afterRemovalTree = snd (snd (build exampleHost (builtFunnel False) fileRemovedTree))"

text \<open>
  The same root with a diamond: the entry imports \<open>b\<close> and \<open>c\<close>, and \<open>b.js\<close> imports \<open>./c\<close>.
\<close>

definition diamondTree :: filesystem where
  "diamondTree =
     [(''src'', DirNode dirStat),
      (''src/a.js'', FileNode (fileStat 1) [''b'', ''c'']),
      (''src/b.js'', FileNode (fileStat 1) [''./c'']),
      (''src/c.js'', FileNode (fileStat 1) []),
      (''src/d.js'', FileNode (fileStat 1) []),
      (''out'', DirNode dirStat)]"


definition diamondBuilt :: "error option \<times> funnel \<times> filesystem" where
  \<comment> \<open>exclude mode; the first build on the diamond\<close>
  "diamondBuilt = build exampleHost (exampleFunnel False) diamondTree"

definition externalFunnel :: funnel where
  \<comment> \<open>include mode, with both spellings of the module \<open>c\<close> declared external\<close>
  "externalFunnel = (exampleFunnel True)\<lparr> external := Some [''c'', ''./c''] \<rparr>"

section \<open>Paths under a directory\<close>

lemma isUnder_iff: "isUnder d k = (\<exists>s. k = d @ CHR ''/'' # s)"
proof
  assume u: "isUnder d k"
  have "k = take (Suc (length d)) k @ drop (Suc (length d)) k"
    by simp
  with u have "k = d @ CHR ''/'' # drop (Suc (length d)) k"
    by (simp add: isUnder_def)
  then show "\<exists>s. k = d @ CHR ''/'' # s" ..
next
  assume "\<exists>s. k = d @ CHR ''/'' # s"
  then show "isUnder d k"
    by (auto simp: isUnder_def)
qed

lemma within_iff: "within d k = (k = d \<or> (\<exists>s. k = d @ CHR ''/'' # s))"
  by (simp add: within_def isUnder_iff)





lemma mirror_sub:
  fixes io :: host
  assumes "within (inputPath io @ ''/'' @ p) k"
  shows "(outputPath io @ ''/'' @ p) @ drop (length (inputPath io @ ''/'' @ p)) k = mirror io k"
  using assms by (auto simp: within_iff mirror_def)



section \<open>What the copy writes\<close>













section \<open>Facts about the methods\<close>

lemma buildNonDepGraphChanges_instance:
  "fst (snd (buildNonDepGraphChanges io this fs)) = this"
  by (simp add: buildNonDepGraphChanges_def Let_def split: option.splits prod.splits sum.splits)

lemma copyDepGraph_sets:
  "depGraph (fst (snd (copyDepGraph io this fs modules))) = Some (sort modules) \<and>
   nonDepGraph (fst (snd (copyDepGraph io this fs modules))) = Some (complementOf io fs modules)"
  by (simp add: copyDepGraph_def complementOf_def Let_def split: option.splits prod.splits sum.splits)

lemma copyDepGraph_success:
  assumes "copyDepGraph io this fs modules = (None, this', fs')"
  shows "depGraph this' = Some (sort modules) \<and>
         nonDepGraph this' = Some (complementOf io fs modules) \<and>
         copy io (selectedSet io this fs modules) (rimraf (outputPath io) fs) = (None, fs') \<and>
         (\<exists>t. getFSTree io fs' (sort modules) = Inr t \<and> depGraphTree this' = Some t) \<and>
         (\<exists>t. getFSTree io fs' (complementOf io fs modules) = Inr t \<and> nonDepGraphTree this' = Some t)"
  using assms
  by (auto simp: copyDepGraph_def complementOf_def selectedSet_def Let_def
           split: option.splits prod.splits sum.splits)

lemma getFSTree_entry:
  assumes "getFSTree io fs paths = Inr t" and "(p, s) \<in> set t"
  shows "existsStat fs (path_join (inputPath io) p) = Some s"
  using assms
  by (auto simp: getFSTree_def fromEntries_def fromStat_def map_filter_def split: option.splits)

lemma getFSTree_lookup:
  assumes "getFSTree io fs paths = Inr t" and "(p, s) \<in> set t"
  shows "map_of t p = Some s"
proof (cases "map_of t p")
  case None
  then show ?thesis
    using assms(2) by (simp add: map_of_eq_None_iff rev_image_eqI)
next
  case (Some s')
  then have "(p, s') \<in> set t"
    by (rule map_of_SomeD)
  then have "existsStat fs (path_join (inputPath io) p) = Some s'"
    using assms(1) by (rule getFSTree_entry [rotated])
  moreover have "existsStat fs (path_join (inputPath io) p) = Some s"
    using assms by (rule getFSTree_entry)
  ultimately show ?thesis
    using Some by simp
qed

lemma calculatePatch_same:
  assumes "getFSTree io fs paths = Inr t"
  shows "calculatePatch t t = []"
proof -
  have "\<forall>e \<in> set t. map_of t (fst e) = Some (snd e)"
    using getFSTree_lookup [OF assms] by auto
  then show ?thesis
    unfolding calculatePatch_def
    by (auto simp: case_prod_beta split: option.splits)
qed

lemma rebuild_after_recomputation:
  assumes "copyDepGraph io this fs modules = (None, this', fs')"
  shows "build io this' fs' = (None, this', fs')"
proof -
  from copyDepGraph_success [OF assms] obtain t t' where
    "depGraph this' = Some (sort modules)"
    "nonDepGraph this' = Some (complementOf io fs modules)"
    "getFSTree io fs' (sort modules) = Inr t" "depGraphTree this' = Some t"
    "getFSTree io fs' (complementOf io fs modules) = Inr t'" "nonDepGraphTree this' = Some t'"
    by blast
  then show ?thesis
    by (simp add: build_def buildNonDepGraphChanges_def calculatePatch_same)
qed

lemma set_complement:
  "set (complementOf io fs modules) = set (listing fs (inputPath io)) - set modules"
  by (auto simp: complementOf_def filterDirectory_def)

lemma buildFromEntry_absent:
  assumes "\<not> existsSync fs (path_join (inputPath io) (entry this))"
  shows "buildFromEntry io this fs =
           (if includeFlag this then (None, this, fs)
            else case readdirSync fs (inputPath io) of
                   Inl e \<Rightarrow> (Some e, this, fs)
                 | Inr names \<Rightarrow> (fst (copy io names fs), this, snd (copy io names fs)))"
  using assms by (simp add: buildFromEntry_def split: sum.splits prod.splits)

lemma buildFromEntry_present:
  assumes "existsSync fs (path_join (inputPath io) (entry this))"
  shows "buildFromEntry io this fs =
           (case rollup (getRollupOptions io this fs) fs [] of
              Inl e \<Rightarrow> (Some e, this, fs)
            | Inr modules \<Rightarrow> copyDepGraph io this fs modules)"
  using assms by (simp add: buildFromEntry_def)


lemma recomputation_of_build:
  assumes "build io this fs = buildFromEntry io this fs"
      and "existsSync fs (path_join (inputPath io) (entry this))"
      and "build io this fs = (None, this', fs')"
  shows "\<exists>modules. rollup (getRollupOptions io this fs) fs [] = Inr modules \<and>
                   copyDepGraph io this fs modules = (None, this', fs')"
proof -
  from assms have res: "(case rollup (getRollupOptions io this fs) fs [] of
                     Inl e \<Rightarrow> (Some e, this, fs)
                   | Inr modules \<Rightarrow> copyDepGraph io this fs modules) = (None, this', fs')"
    by (simp add: buildFromEntry_present)
  then obtain modules where m: "rollup (getRollupOptions io this fs) fs [] = Inr modules"
    by (cases "rollup (getRollupOptions io this fs) fs []") simp_all
  with res show ?thesis
    by simp
qed


text \<open>Erasing imports changes neither which paths exist nor what the callback answers.\<close>

lemma map_of_withoutExternal:
  "map_of (withoutExternal ext fs) p = map_option (withoutImports ext) (map_of fs p)"
  by (induction fs) (auto simp: withoutExternal_def)

lemma existsSync_withoutExternal:
  "existsSync (withoutExternal ext fs) p = existsSync fs p"
  by (simp add: existsSync_def map_of_withoutExternal)

lemma load_withoutExternal:
  "load (withoutExternal ext fs) p = map_option (filter (\<lambda>i. i \<notin> set ext)) (load fs p)"
proof (cases "map_of fs p")
  case None
  then show ?thesis
    by (simp add: load_def map_of_withoutExternal)
next
  case (Some n)
  then show ?thesis
    by (cases n) (simp_all add: load_def map_of_withoutExternal)
qed

lemma resolveId_withoutExternal:
  "resolveId io (withoutExternal ext fs) = resolveId io fs"
  unfolding resolveId_def existsSync_withoutExternal by (rule refl)

lemma getRollupOptions_withoutExternal:
  "getRollupOptions io this (withoutExternal ext fs) = getRollupOptions io this fs"
  by (simp add: getRollupOptions_def resolveId_withoutExternal)

lemma walk_withoutExternal:
  "walk opts fs pending visited modules
     = walk opts (withoutExternal (ro_external opts) fs)
         (filter (\<lambda>(importee, importer). importee \<notin> set (ro_external opts)) pending) visited modules"
proof (induction opts fs pending visited modules rule: walk.induct)
  case (1 opts fs visited modules)
  show ?case
    by simp
next
  case (2 opts fs importee importer pending visited modules)
  show ?case
  proof (cases "importee \<in> set (ro_external opts)")
    case True
    then show ?thesis
      using "2.IH"(1) by simp
  next
    case notExt: False
    show ?thesis
    proof (cases "ro_resolveId opts importee (Some importer) modules")
      case (Inl e)
      then show ?thesis
        using notExt by simp
    next
      case (Inr r)
      obtain target modules' where r: "r = (target, modules')"
        by (cases r)
      show ?thesis
      proof (cases target)
        case None
        then show ?thesis
          using notExt Inr r "2.IH"(2) by simp
      next
        case (Some p)
        show ?thesis
        proof (cases "p \<in> set visited")
          case True
          then show ?thesis
            using notExt Inr r Some "2.IH"(3) by simp
        next
          case unseen: False
          show ?thesis
          proof (cases "load fs p")
            case None
            then show ?thesis
              using notExt Inr r Some unseen by (simp add: load_withoutExternal)
          next
            case (Some imps)
            have "filter (\<lambda>(importee, importer). importee \<notin> set (ro_external opts))
                    (map (\<lambda>s. (s, p)) imps @ pending)
                  = map (\<lambda>s. (s, p)) (filter (\<lambda>i. i \<notin> set (ro_external opts)) imps)
                    @ filter (\<lambda>(importee, importer). importee \<notin> set (ro_external opts)) pending"
              by (simp add: filter_map comp_def)
            then show ?thesis
              using notExt Inr r \<open>target = Some p\<close> unseen Some
                "2.IH"(4) [OF notExt Inr r [symmetric] \<open>target = Some p\<close> unseen Some]
              by (simp add: load_withoutExternal)
          qed
        qed
      qed
    qed
  qed
qed

lemma partial_cache_build_fails:
  assumes "depGraph this = Some paths" and "depGraphTree this = None"
  shows "fst (build io this fs) \<noteq> None \<and> fst (snd (build io this fs)) = this"
  using assms by (simp add: build_def split: sum.splits)

lemma successful_build_keeps_cache:
  assumes "cacheAllOrNone this" and "build io this fs = (None, this', fs')"
  shows "cacheAllOrNone this'"
proof (cases "build io this fs = buildFromEntry io this fs")
  case True
  show ?thesis
  proof (cases "existsSync fs (path_join (inputPath io) (entry this))")
    case False
    then have "fst (snd (buildFromEntry io this fs)) = this"
      by (simp add: buildFromEntry_absent split: sum.splits)
    then show ?thesis
      using assms True by simp
  next
    case present: True
    from recomputation_of_build [OF True present assms(2)] obtain modules where
      "copyDepGraph io this fs modules = (None, this', fs')"
      by blast
    from copyDepGraph_success [OF this] show ?thesis
      by (auto simp: cacheAllOrNone_def)
  qed
next
  case False
  then have "build io this fs = buildNonDepGraphChanges io this fs
               \<or> fst (snd (build io this fs)) = this"
    by (auto simp: build_def split: option.splits if_splits sum.splits)
  then have "fst (snd (build io this fs)) = this"
    using buildNonDepGraphChanges_instance [of io this fs] by auto
  then show ?thesis
    using assms by simp
qed

section \<open>Construction: exactly one mode\<close>

text \<open>
  C10 (as amended). When each of \<open>include\<close> and \<open>exclude\<close> is a boolean or absent,
  construction fails with the configuration error exactly when neither or both of them
  are true, and it yields an instance, in the mode of \<open>include\<close>, exactly when one of them
  is true. A failed construction yields no instance, so no build can run on it.
\<close>

theorem constructor_exactly_one:
  assumes "isBooleanOrAbsent (opt_include opts)" and "isBooleanOrAbsent (opt_exclude opts)"
  shows "(constructor opts = Inl ConfigError)
           = (truthy (opt_include opts) = truthy (opt_exclude opts)) \<and>
         (\<exists>this. constructor opts = Inr this \<and> includeFlag this = truthy (opt_include opts))
           = (truthy (opt_include opts) \<noteq> truthy (opt_exclude opts))"
proof -
  obtain i e where ie: "opt_include opts = i" "opt_exclude opts = e"
    by simp
  from assms consider
    "i = Undefined" "e = Undefined" | b where "i = Undefined" "e = Boolean b" |
    b where "i = Boolean b" "e = Undefined" | b c where "i = Boolean b" "e = Boolean c"
    unfolding ie isBooleanOrAbsent_def by (cases i; cases e) simp_all
  then show ?thesis
    unfolding constructor_def ie by cases simp_all
qed

theorem constructor_exactly_one_witness:
  "isBooleanOrAbsent (Boolean True) \<and> isBooleanOrAbsent Undefined \<and>
   truthy (Boolean True) \<noteq> truthy Undefined \<and>
   (\<exists>this. constructor \<lparr> opt_include = Boolean True, opt_exclude = Undefined,
                           opt_entry = ''a.js'', opt_external = None \<rparr> = Inr this \<and>
           includeFlag this = truthy (Boolean True))"
proof -
  have h1: "isBooleanOrAbsent (Boolean True)"
    by code_simp
  have h2: "isBooleanOrAbsent Undefined"
    by code_simp
  have h3: "truthy (Boolean True) \<noteq> truthy Undefined"
    by simp
  have concl: "\<exists>this. constructor \<lparr> opt_include = Boolean True, opt_exclude = Undefined,
                           opt_entry = ''a.js'', opt_external = None \<rparr> = Inr this \<and>
           includeFlag this = truthy (Boolean True)"
    using constructor_exactly_one
      [of "\<lparr> opt_include = Boolean True, opt_exclude = Undefined, opt_entry = ''a.js'',
              opt_external = None \<rparr>"] h1 h2 h3
    by simp
  show ?thesis
    by (intro conjI) (rule h1 h2 h3 concl)+
qed

text \<open>
  C10 as stated fails in two ways. What counts is not whether an option is specified but
  whether it is true: with \<open>include\<close> false and \<open>exclude\<close> true both are specified and
  construction succeeds, in exclude mode. And the test is the bitwise \<open>^\<close>, which is the
  exclusive or on booleans only: with \<open>include\<close> the string \<^verbatim>\<open>'yes'\<close> and no \<open>exclude\<close>,
  exactly one option is set and construction fails; with \<open>include\<close> 1 and \<open>exclude\<close> 2, both
  are set and construction succeeds, in include mode.
\<close>

theorem constructor_truthy_values:
  "constructor \<lparr> opt_include = Boolean False, opt_exclude = Boolean True, opt_entry = ''a.js'',
                 opt_external = None \<rparr> = Inr (exampleFunnel False) \<and>
   truthy yes \<and> \<not> truthy Undefined \<and>
   constructor \<lparr> opt_include = yes, opt_exclude = Undefined, opt_entry = ''a.js'',
                 opt_external = None \<rparr> = Inl ConfigError \<and>
   truthy (Number 1) \<and> truthy (Number 2) \<and>
   constructor \<lparr> opt_include = Number 1, opt_exclude = Number 2, opt_entry = ''a.js'',
                 opt_external = None \<rparr> = Inr (exampleFunnel True)"
  by (intro conjI; code_simp)

section \<open>The partition of the root\<close>

text \<open>
  C1 (as amended). Right after a recomputation, and for the input root as it is listed
  at that moment: the Dependency Graph Set and the Complement Set are disjoint, every path
  listed under the root (file or directory) is in one of them, the graph holds exactly
  the recorded modules and the complement exactly the listed paths that are no recorded
  module. So every file under the root is in exactly one of the two sets.
\<close>

theorem copyDepGraph_partition:
  "\<exists>graph complement.
     depGraph (fst (snd (copyDepGraph io this fs modules))) = Some graph \<and>
     nonDepGraph (fst (snd (copyDepGraph io this fs modules))) = Some complement \<and>
     set graph \<inter> set complement = {} \<and>
     set (listing fs (inputPath io)) \<subseteq> set graph \<union> set complement \<and>
     set graph = set modules \<and>
     set complement = set (listing fs (inputPath io)) - set modules"
proof (intro exI conjI)
  show "depGraph (fst (snd (copyDepGraph io this fs modules))) = Some (sort modules)"
    using copyDepGraph_sets by blast
  show "nonDepGraph (fst (snd (copyDepGraph io this fs modules))) = Some (complementOf io fs modules)"
    using copyDepGraph_sets by blast
  show "set (sort modules) \<inter> set (complementOf io fs modules) = {}"
    unfolding set_complement by auto
  show "set (listing fs (inputPath io)) \<subseteq> set (sort modules) \<union> set (complementOf io fs modules)"
    unfolding set_complement by auto
  show "set (sort modules) = set modules"
    by simp
  show "set (complementOf io fs modules) = set (listing fs (inputPath io)) - set modules"
    by (rule set_complement)
qed

text \<open>
  C1 as stated fails on a later build. After a first build in exclude mode the file
  \<open>e.js\<close> is added to the root; the next build finds both diffs empty and changes nothing,
  so both cached sets are defined and \<open>e.js\<close>, a file under the root, is in neither.
\<close>

theorem partition_stale_after_added_file:
  "fst (build exampleHost (exampleFunnel False) exampleTree) = None \<and>
   build exampleHost (builtFunnel False) fileAddedTree = (None, builtFunnel False, fileAddedTree) \<and>
   depGraph (builtFunnel False) = Some [''a.js'', ''b.js'', ''c.js''] \<and>
   nonDepGraph (builtFunnel False) = Some [''d.js''] \<and>
   map_of fileAddedTree ''src/e.js'' = Some (FileNode (fileStat 2) []) \<and>
   ''e.js'' \<in> set (listing fileAddedTree (inputPath exampleHost)) \<and>
   ''e.js'' \<notin> set [''a.js'', ''b.js'', ''c.js''] \<union> set [''d.js'']"
  by (intro conjI; code_simp)

section \<open>The stable rebuild\<close>

text \<open>
  C2. When a cached dependency graph exists and both diffs are empty (the one of the
  dependency-graph paths and the one of the complement paths), the build returns without
  an error and leaves the whole filesystem, so the output directory with its metadata,
  and the instance as they were.
\<close>

theorem build_unchanged_is_noop:
  assumes "depGraph this = Some paths"
      and "depGraphTree this = Some tree"
      and "getFSTree io fs paths = Inr incoming"
      and "calculatePatch tree incoming = []"
      and "nonDepGraph this = Some others"
      and "nonDepGraphTree this = Some otherTree"
      and "getFSTree io fs others = Inr otherIncoming"
      and "calculatePatch otherTree otherIncoming = []"
  shows "build io this fs = (None, this, fs)"
  using assms by (simp add: build_def buildNonDepGraphChanges_def)

theorem build_unchanged_is_noop_witness:
  "depGraph (builtFunnel False) = Some [''a.js'', ''b.js'', ''c.js''] \<and>
   depGraphTree (builtFunnel False)
     = Some [(''a.js'', fileStat 1), (''b.js'', fileStat 1), (''c.js'', fileStat 1)] \<and>
   getFSTree exampleHost (builtTree False) [''a.js'', ''b.js'', ''c.js'']
     = Inr [(''a.js'', fileStat 1), (''b.js'', fileStat 1), (''c.js'', fileStat 1)] \<and>
   calculatePatch [(''a.js'', fileStat 1), (''b.js'', fileStat 1), (''c.js'', fileStat 1)]
     [(''a.js'', fileStat 1), (''b.js'', fileStat 1), (''c.js'', fileStat 1)] = [] \<and>
   nonDepGraph (builtFunnel False) = Some [''d.js''] \<and>
   nonDepGraphTree (builtFunnel False) = Some [(''d.js'', fileStat 1)] \<and>
   getFSTree exampleHost (builtTree False) [''d.js''] = Inr [(''d.js'', fileStat 1)] \<and>
   calculatePatch [(''d.js'', fileStat 1)] [(''d.js'', fileStat 1)] = [] \<and>
   build exampleHost (builtFunnel False) (builtTree False) = (None, builtFunnel False, builtTree False)"
proof -
  have h1: "depGraph (builtFunnel False) = Some [''a.js'', ''b.js'', ''c.js'']"
    by code_simp
  have h2: "depGraphTree (builtFunnel False)
     = Some [(''a.js'', fileStat 1), (''b.js'', fileStat 1), (''c.js'', fileStat 1)]"
    by code_simp
  have h3: "getFSTree exampleHost (builtTree False) [''a.js'', ''b.js'', ''c.js'']
     = Inr [(''a.js'', fileStat 1), (''b.js'', fileStat 1), (''c.js'', fileStat 1)]"
    by code_simp
  have h4: "calculatePatch [(''a.js'', fileStat 1), (''b.js'', fileStat 1), (''c.js'', fileStat 1)]
     [(''a.js'', fileStat 1), (''b.js'', fileStat 1), (''c.js'', fileStat 1)] = []"
    by code_simp
  have h5: "nonDepGraph (builtFunnel False) = Some [''d.js'']"
    by code_simp
  have h6: "nonDepGraphTree (builtFunnel False) = Some [(''d.js'', fileStat 1)]"
    by code_simp
  have h7: "getFSTree exampleHost (builtTree False) [''d.js''] = Inr [(''d.js'', fileStat 1)]"
    by code_simp
  have h8: "calculatePatch [(''d.js'', fileStat 1)] [(''d.js'', fileStat 1)] = []"
    by code_simp
  note concl = build_unchanged_is_noop [OF h1 h2 h3 h4 h5 h6 h7 h8]
  show ?thesis
    by (intro conjI) (rule h1 h2 h3 h4 h5 h6 h7 h8 concl)+
qed

section \<open>Include mode and changes outside the graph\<close>

text \<open>
  C4. In include mode, when the cached dependency graph exists and its diff is empty, the
  build leaves the whole filesystem as it was, whatever happened to the files outside the
  graph: nothing is written to, removed from or wiped in the output directory. The
  instance is unchanged too.
\<close>

theorem include_mode_output_untouched:
  assumes "includeFlag this"
      and "depGraph this = Some paths"
      and "depGraphTree this = Some tree"
      and "getFSTree io fs paths = Inr incoming"
      and "calculatePatch tree incoming = []"
  shows "snd (snd (build io this fs)) = fs \<and> fst (snd (build io this fs)) = this"
  using assms
  by (simp add: build_def buildNonDepGraphChanges_def Let_def split: option.splits sum.splits)

text \<open>The witness: \<open>d.js\<close>, outside the graph, was rewritten since the first build.\<close>

theorem include_mode_output_untouched_witness:
  "includeFlag (builtFunnel True) \<and>
   depGraph (builtFunnel True) = Some [''a.js'', ''b.js'', ''c.js''] \<and>
   depGraphTree (builtFunnel True)
     = Some [(''a.js'', fileStat 1), (''b.js'', fileStat 1), (''c.js'', fileStat 1)] \<and>
   getFSTree exampleHost outsideTouchedTree [''a.js'', ''b.js'', ''c.js'']
     = Inr [(''a.js'', fileStat 1), (''b.js'', fileStat 1), (''c.js'', fileStat 1)] \<and>
   calculatePatch [(''a.js'', fileStat 1), (''b.js'', fileStat 1), (''c.js'', fileStat 1)]
     [(''a.js'', fileStat 1), (''b.js'', fileStat 1), (''c.js'', fileStat 1)] = [] \<and>
   getFSTree exampleHost outsideTouchedTree [''d.js''] = Inr [(''d.js'', fileStat 2)] \<and>
   calculatePatch [(''d.js'', fileStat 1)] [(''d.js'', fileStat 2)] = [Change ''d.js''] \<and>
   snd (snd (build exampleHost (builtFunnel True) outsideTouchedTree)) = outsideTouchedTree"
proof -
  have h1: "includeFlag (builtFunnel True)"
    by code_simp
  have h2: "depGraph (builtFunnel True) = Some [''a.js'', ''b.js'', ''c.js'']"
    by code_simp
  have h3: "depGraphTree (builtFunnel True)
     = Some [(''a.js'', fileStat 1), (''b.js'', fileStat 1), (''c.js'', fileStat 1)]"
    by code_simp
  have h4: "getFSTree exampleHost outsideTouchedTree [''a.js'', ''b.js'', ''c.js'']
     = Inr [(''a.js'', fileStat 1), (''b.js'', fileStat 1), (''c.js'', fileStat 1)]"
    by code_simp
  have h5: "calculatePatch [(''a.js'', fileStat 1), (''b.js'', fileStat 1), (''c.js'', fileStat 1)]
     [(''a.js'', fileStat 1), (''b.js'', fileStat 1), (''c.js'', fileStat 1)] = []"
    by code_simp
  have h6: "getFSTree exampleHost outsideTouchedTree [''d.js''] = Inr [(''d.js'', fileStat 2)]"
    by code_simp
  have h7: "calculatePatch [(''d.js'', fileStat 1)] [(''d.js'', fileStat 2)] = [Change ''d.js'']"
    by code_simp
  note concl = include_mode_output_untouched [OF h1 h2 h3 h4 h5, THEN conjunct1]
  show ?thesis
    by (intro conjI) (rule h1 h2 h3 h4 h5 h6 h7 concl)+
qed

section \<open>A stale graph\<close>




section \<open>An absent entry\<close>




section \<open>External specifiers\<close>

text \<open>
  C6. With the configured list of external specifiers handed to the bundler, resolution
  gives the same result, error or recorded modules, as on the tree in which no module
  imports any of the listed specifiers: a listed specifier is never mapped to a path and
  never recorded, whatever files exist under the root.
\<close>

theorem external_specifiers_never_resolved:
  assumes "external this = Some ext"
  shows "rollup (getRollupOptions io this fs) fs modules
           = rollup (getRollupOptions io this (withoutExternal ext fs)) (withoutExternal ext fs) modules"
proof -
  let ?opts = "getRollupOptions io this fs"
  have ext: "ro_external ?opts = ext"
    using assms by (simp add: getRollupOptions_def)
  have step: "walk ?opts fs (map (\<lambda>s. (s, p)) imps) [p] ms
                = walk ?opts (withoutExternal ext fs)
                    (map (\<lambda>s. (s, p)) (filter (\<lambda>i. i \<notin> set ext) imps)) [p] ms" for p imps ms
    using walk_withoutExternal [of ?opts fs "map (\<lambda>s. (s, p)) imps" "[p]" ms]
    by (simp add: ext filter_map comp_def)
  show ?thesis
    unfolding getRollupOptions_withoutExternal
    by (simp add: rollup_def load_withoutExternal step split: sum.splits prod.splits option.splits)
qed

text \<open>
  The witness: \<open>c\<close> and \<open>./c\<close> are external and \<open>src/c.js\<close> exists; the recorded modules are
  \<open>a.js\<close> and \<open>b.js\<close>.
\<close>

theorem external_specifiers_never_resolved_witness:
  "external externalFunnel = Some [''c'', ''./c''] \<and>
   existsSync diamondTree ''src/c.js'' \<and>
   rollup (getRollupOptions exampleHost externalFunnel diamondTree) diamondTree []
     = Inr [''a.js'', ''b.js''] \<and>
   rollup (getRollupOptions exampleHost externalFunnel diamondTree) diamondTree []
     = rollup (getRollupOptions exampleHost externalFunnel
                 (withoutExternal [''c'', ''./c''] diamondTree))
         (withoutExternal [''c'', ''./c''] diamondTree) []"
proof -
  have h1: "external externalFunnel = Some [''c'', ''./c'']"
    by code_simp
  have h2: "existsSync diamondTree ''src/c.js''"
    by code_simp
  have h3: "rollup (getRollupOptions exampleHost externalFunnel diamondTree) diamondTree []
     = Inr [''a.js'', ''b.js'']"
    by code_simp
  note concl = external_specifiers_never_resolved [OF h1, of exampleHost diamondTree "[]"]
  show ?thesis
    by (intro conjI) (rule h1 h2 h3 concl)+
qed

section \<open>The cached graph and its snapshot\<close>

text \<open>
  C7. The claim is that the cached Dependency Graph Set is deduplicated and sorted. The
  code sorts it and does not deduplicate it: the callback records a module every time it
  resolves a specifier to it, and \<open>_copyDepGraph\<close> caches the sorted list as it is. In the
  diamond \<open>c.js\<close> is imported by \<open>a.js\<close> and by \<open>b.js\<close>: resolution succeeds, the cached graph
  holds \<open>c.js\<close> twice, and the snapshot of the cached graph is refused for the duplicate
  path, so the build fails.
\<close>

theorem depGraph_duplicate_module:
  "rollup (getRollupOptions exampleHost (exampleFunnel True) diamondTree) diamondTree []
     = Inr [''a.js'', ''b.js'', ''c.js'', ''c.js''] \<and>
   depGraph (fst (snd (build exampleHost (exampleFunnel True) diamondTree)))
     = Some [''a.js'', ''b.js'', ''c.js'', ''c.js''] \<and>
   sorted [''a.js'', ''b.js'', ''c.js'', ''c.js''] \<and>
   \<not> distinct [''a.js'', ''b.js'', ''c.js'', ''c.js''] \<and>
   fst (build exampleHost (exampleFunnel True) diamondTree)
     = Some (NotSortedUnique ''c.js'' ''c.js'')"
  by (intro conjI; code_simp)

section \<open>The complement snapshot on a differential update\<close>

text \<open>
  C8. The claim is that a differential update refreshes the cached complement snapshot.
  The code does not: \<open>_buildNonDepGraphChanges\<close> assigns no field. In exclude mode, after
  the first build, \<open>d.js\<close> is deleted from the root. The next build removes \<open>out/d.js\<close> and
  succeeds, but the cached snapshot still lists \<open>d.js\<close> while the snapshot of the current
  state is empty; the build after that, with the input unchanged, replays the removal
  and fails.
\<close>

theorem complement_snapshot_not_refreshed:
  "depGraph (builtFunnel False) = Some [''a.js'', ''b.js'', ''c.js''] \<and>
   getFSTree exampleHost fileRemovedTree [''d.js''] = Inr [] \<and>
   calculatePatch [(''d.js'', fileStat 1)] [] = [Unlink ''d.js''] \<and>
   build exampleHost (builtFunnel False) fileRemovedTree = (None, builtFunnel False, afterRemovalTree) \<and>
   \<not> existsSync afterRemovalTree ''out/d.js'' \<and>
   nonDepGraphTree (builtFunnel False) = Some [(''d.js'', fileStat 1)] \<and>
   getFSTree exampleHost afterRemovalTree [''d.js''] = Inr [] \<and>
   build exampleHost (builtFunnel False) afterRemovalTree
     = (Some (ENOENT ''out/d.js''), builtFunnel False, afterRemovalTree)"
  by (intro conjI; code_simp)

section \<open>The cache: all or none\<close>

text \<open>
  C9. The claim is that the four cached fields are set together, only after a
  recomputation has succeeded. The code assigns the two sets first, then wipes and
  copies, then takes the two snapshots: a recomputation that fails in between leaves the
  sets defined and the snapshots undefined. In exclude mode on the diamond the new
  instance has no cached field; the first build assigns both sets and fails when it
  takes the snapshot of the graph; both snapshots are still undefined, and the next
  build on what the first one left fails as well. By \<open>partial_cache_build_fails\<close> every
  later build fails, whatever the filesystem is then.
\<close>

theorem partial_cache_after_failed_snapshot:
  "constructor \<lparr> opt_include = Undefined, opt_exclude = Boolean True, opt_entry = ''a.js'',
                 opt_external = None \<rparr> = Inr (exampleFunnel False) \<and>
   cacheAllOrNone (exampleFunnel False) \<and>
   fst diamondBuilt = Some (NotSortedUnique ''c.js'' ''c.js'') \<and>
   depGraph (fst (snd diamondBuilt)) = Some [''a.js'', ''b.js'', ''c.js'', ''c.js''] \<and>
   nonDepGraph (fst (snd diamondBuilt)) = Some [''d.js''] \<and>
   depGraphTree (fst (snd diamondBuilt)) = None \<and>
   nonDepGraphTree (fst (snd diamondBuilt)) = None \<and>
   \<not> cacheAllOrNone (fst (snd diamondBuilt)) \<and>
   existsSync (snd (snd diamondBuilt)) ''out/d.js'' \<and>
   fst (build exampleHost (fst (snd diamondBuilt)) (snd (snd diamondBuilt)))
     = Some (NotSortedUnique ''c.js'' ''c.js'')"
  by (intro conjI; code_simp)

end
